theory Spec2Isabelle
  imports Main
begin

section \<open>Data model (library/models.py)\<close>

text \<open>
  Every Django model is a record of the columns the views read or write, and a table is
  the list of its rows in insertion order. A \<open>DateTimeField\<close> holds a point in time with
  Python's microsecond resolution: an integer count of microseconds since the epoch.
\<close>

type_synonym time = int

datatype role = PATRON | STAFF | ADMIN

record user =
  user_id :: nat
  username :: string
  role :: role
  is_active :: bool

definition is_patron :: "user \<Rightarrow> bool" where
  "is_patron self = (role self = PATRON)"

definition is_staff_user :: "user \<Rightarrow> bool" where
  "is_staff_user self = (role self = STAFF)"

definition is_admin_user :: "user \<Rightarrow> bool" where
  "is_admin_user self = (role self = ADMIN)"

datatype resource_type = BOOK | MEDIA | DIGITAL

datatype resource_status = AVAILABLE | CHECKED_OUT | RESERVED | LOST

record resource =
  resource_id :: nat
  title :: string
  author :: string
  resource_type :: resource_type
  rfid_tag :: "string option"
  barcode :: "string option"
  resource_status :: resource_status
  resource_created_at :: time

text \<open>\<open>Checkout.STATUS_LOST\<close> is written \<open>CHECKOUT_LOST\<close>: \<open>LOST\<close> is the resource's.\<close>

datatype checkout_status = ACTIVE | RETURNED | CHECKOUT_LOST

record checkout =
  co_id :: nat
  co_patron :: nat
  co_resource :: nat
  checkout_date :: time
  due_date :: time
  co_status :: checkout_status

text \<open>
  \<open>Return.fine_amount\<close> is a \<open>DecimalField(max_digits=6, decimal_places=2)\<close>. The views give
  it the float \<open>max(0, days_overdue) * 1.0\<close>, a whole number of dollars, and the field
  converts that float to a decimal of six significant digits when the row is written
  (\<open>decimal_field_to_python\<close> below), so the column holds a whole number here.
  \<open>Return.checkout\<close> is a \<open>OneToOneField\<close>: the table holds at most one row per checkout.
\<close>

record return_record =
  ret_id :: nat
  ret_checkout :: nat
  returned_at :: time
  fine_amount :: int

datatype reservation_status = PENDING | NOTIFIED | CANCELLED | EXPIRED

record reservation =
  rsv_id :: nat
  rsv_patron :: nat
  rsv_resource :: nat
  rsv_created_at :: time
  rsv_status :: reservation_status
  hold_until :: "time option"

datatype notification_type = OVERDUE | RES_AVAIL | NEW_RESOURCE | EVENT

text \<open>
  The texts the views build with f-strings, one constructor per template with the values
  it interpolates; the first group are the \<open>messages\<close> shown to the user, the second the
  notification rows' messages.
\<close>

datatype message_text =
    Only_patrons_can_checkout
  | Resource_not_available
  | Checked_out string
  | Checkout_not_active
  | Returned_fine string int
  | Reservation_limit_reached
  | Resource_is_available
  | Reservation_placed string
  | Return_processed string int
  | Promoted_to_staff string
  | Deactivated string
  | Report_generated nat
  | Note_checked_out string time
  | Note_returned_overdue string int
  | Note_returned string
  | Note_reservation_placed string
  | Note_return_by_staff string int

record notification =
  ntf_id :: nat
  ntf_user :: nat
  notification_type :: notification_type
  message :: message_text
  ntf_created_at :: time
  is_read :: bool

datatype report_type = POPULAR_RESOURCES | FREQUENT_PATRONS | INVENTORY_TRENDS

record report =
  rep_id :: nat
  report_type :: report_type
  generated_at :: time
  data :: "(string \<times> nat) list"

record db =
  users :: "user list"
  resources :: "resource list"
  checkouts :: "checkout list"
  returns :: "return_record list"
  reservations :: "reservation list"
  notifications :: "notification list"
  reports :: "report list"

section \<open>The framework the views call\<close>

text \<open>
  \<open>timezone.now()\<close> reads the wall clock. A request is given the sequence of its clock
  readings: \<open>now clk\<close> is the next reading and \<open>tick clk\<close> the clock after it was taken.
\<close>

type_synonym clock = "nat \<Rightarrow> time"

definition now :: "clock \<Rightarrow> time" where
  "now clk = clk 0"

definition tick :: "clock \<Rightarrow> clock" where
  "tick clk = (\<lambda>n. clk (Suc n))"

text \<open>One day in microseconds; \<open>days_of\<close> is the \<open>.days\<close> attribute of a \<open>timedelta\<close>
  (the floor of the difference in days).\<close>

definition usec_per_day :: int where
  "usec_per_day = 86400000000"

definition days_of :: "int \<Rightarrow> int" where
  "days_of delta = delta div usec_per_day"

text \<open>
  \<open>DecimalField.to_python\<close> of a float: \<open>Context(prec=max_digits).create_decimal_from_float\<close>.
  The float is converted exactly and then rounded to \<open>max_digits\<close> significant digits, a
  tie going to the even neighbour (the rounding of a \<open>decimal.Context\<close> that names none). The
  floats of this program are whole numbers: \<open>excess_digits prec n\<close> is the number of low
  digits of \<open>n\<close> beyond its first \<open>prec\<close>, which the rounding replaces by zeros. The declared
  range of the field (\<open>max_digits - decimal_places\<close> digits before the point) is checked by its
  validators only, which \<open>objects.create\<close> does not run.
\<close>

function excess_digits :: "nat \<Rightarrow> nat \<Rightarrow> nat" where
  "excess_digits prec n = (if n < 10 ^ prec then 0 else Suc (excess_digits prec (n div 10)))"
  by pat_completeness auto

termination
proof (relation "measure snd")
  show "wf (measure snd)" by simp
next
  fix prec n :: nat
  assume "\<not> n < 10 ^ prec"
  then have "0 < n" by (cases "n = 0") simp_all
  then show "((prec, n div 10), (prec, n)) \<in> measure snd" by simp
qed

declare excess_digits.simps [simp del]

definition round_half_even :: "nat \<Rightarrow> nat \<Rightarrow> nat" where
  "round_half_even n p =
     (let q = n div p; r = n mod p
      in if p < 2 * r \<or> (2 * r = p \<and> odd q) then q + 1 else q)"

definition create_decimal_from_float :: "nat \<Rightarrow> int \<Rightarrow> int" where
  "create_decimal_from_float prec v =
     (let n = nat \<bar>v\<bar>; p = 10 ^ excess_digits prec n
      in sgn v * int (round_half_even n p * p))"

definition max_digits :: nat where
  "max_digits = 6"

definition decimal_field_to_python :: "int \<Rightarrow> int" where
  "decimal_field_to_python v = create_decimal_from_float max_digits v"

datatype error = Http404 | NameError string | IntegrityError | DoesNotExist

datatype msg_level = MSG_ERROR | MSG_INFO | MSG_SUCCESS

datatype url = To_login | To_resource_detail nat | To_patron_dashboard
  | To_staff_dashboard | To_admin_staff_list

text \<open>A view answers with a redirect and the messages it queued, or raises.\<close>

datatype response = Redirect url "(msg_level \<times> message_text) list"

type_synonym outcome = "(error + response) \<times> db"

text \<open>The next value of a table's \<open>AutoField\<close> primary key.\<close>

definition next_id :: "nat list \<Rightarrow> nat" where
  "next_id ids = Suc (fold max ids 0)"

definition get_resource :: "nat \<Rightarrow> db \<Rightarrow> resource option" where
  "get_resource pk s = find (\<lambda>r. resource_id r = pk) (resources s)"

definition get_checkout :: "nat \<Rightarrow> db \<Rightarrow> checkout option" where
  "get_checkout pk s = find (\<lambda>c. co_id c = pk) (checkouts s)"

definition get_checkout_of :: "nat \<Rightarrow> nat \<Rightarrow> db \<Rightarrow> checkout option" where
  "get_checkout_of pk patron s =
     find (\<lambda>c. co_id c = pk \<and> co_patron c = patron) (checkouts s)"

definition get_user :: "nat \<Rightarrow> db \<Rightarrow> user option" where
  "get_user pk s = find (\<lambda>u. user_id u = pk) (users s)"

definition get_staff :: "nat \<Rightarrow> db \<Rightarrow> user option" where
  "get_staff pk s = find (\<lambda>u. user_id u = pk \<and> role u = STAFF) (users s)"

text \<open>\<open>obj.save()\<close> of a row read from the table: every column of the row with that
  primary key is written.\<close>

definition save_resource :: "resource \<Rightarrow> db \<Rightarrow> db" where
  "save_resource r s =
     s\<lparr>resources := map (\<lambda>x. if resource_id x = resource_id r then r else x) (resources s)\<rparr>"

definition save_checkout :: "checkout \<Rightarrow> db \<Rightarrow> db" where
  "save_checkout c s =
     s\<lparr>checkouts := map (\<lambda>x. if co_id x = co_id c then c else x) (checkouts s)\<rparr>"

definition save_user :: "user \<Rightarrow> db \<Rightarrow> db" where
  "save_user u s =
     s\<lparr>users := map (\<lambda>x. if user_id x = user_id u then u else x) (users s)\<rparr>"

section \<open>Business logic helpers (library/views.py)\<close>

definition MAX_ACTIVE_RESERVATIONS_PER_PATRON :: nat where
  "MAX_ACTIVE_RESERVATIONS_PER_PATRON = 10"

text \<open>
  The names bound in the namespace of the module \<open>views\<close>: what its six import statements
  bind, its one constant and its functions. A name that is neither here nor a Python
  builtin raises \<open>NameError\<close> where it is evaluated.
\<close>

definition views_names :: "string list" where
  "views_names =
     [''messages'', ''login_required'', ''user_passes_test'', ''render'',
      ''get_object_or_404'', ''redirect'', ''timezone'', ''Count'',
      ''Resource'', ''Checkout'', ''Return'', ''Reservation'', ''Notification'', ''User'',
      ''Report'',
      ''staff_required'', ''admin_required'', ''MAX_ACTIVE_RESERVATIONS_PER_PATRON'',
      ''calculate_due_date'', ''calculate_overdue_fine'', ''create_notification'',
      ''patron_dashboard'', ''resource_list'', ''resource_detail'', ''checkout_resource'',
      ''return_resource'', ''reserve_resource'', ''staff_dashboard'',
      ''staff_process_return'', ''admin_staff_list'', ''admin_promote_to_staff'',
      ''admin_deactivate_staff'', ''generate_popular_resources_report'']"

text \<open>
  \<open>return timezone.now() + timedelta(days=14)\<close>: the left operand is evaluated (one clock
  reading), then the name \<open>timedelta\<close> is looked up.
\<close>

definition calculate_due_date :: "clock \<Rightarrow> (error + time) \<times> clock" where
  "calculate_due_date clk =
     (let t = now clk; clk1 = tick clk in
      if ''timedelta'' \<in> set views_names then (Inr (t + 14 * usec_per_day), clk1)
      else (Inl (NameError ''timedelta''), clk1))"

text \<open>\<open>Checkout.is_overdue\<close>: the clock is read only when the status is \<open>ACTIVE\<close>
  (\<open>and\<close> evaluates its right operand only then).\<close>

definition is_overdue :: "checkout \<Rightarrow> clock \<Rightarrow> bool \<times> clock" where
  "is_overdue self clk =
     (if co_status self = ACTIVE then (now clk > due_date self, tick clk)
      else (False, clk))"

definition calculate_overdue_fine :: "checkout \<Rightarrow> clock \<Rightarrow> int \<times> clock" where
  "calculate_overdue_fine checkout clk =
     (case is_overdue checkout clk of
        (False, clk1) \<Rightarrow> (0, clk1)
      | (True, clk1) \<Rightarrow>
          (let days_overdue = days_of (now clk1 - due_date checkout)
           in (max 0 days_overdue, tick clk1)))"

definition create_notification ::
    "nat \<Rightarrow> notification_type \<Rightarrow> message_text \<Rightarrow> clock \<Rightarrow> db \<Rightarrow> db" where
  "create_notification uid ntype msg clk s =
     s\<lparr>notifications := notifications s @
        [\<lparr>ntf_id = next_id (map ntf_id (notifications s)), ntf_user = uid,
          notification_type = ntype, message = msg, ntf_created_at = now clk,
          is_read = False\<rparr>]\<rparr>"

section \<open>The views (library/views.py)\<close>

text \<open>
  A view takes \<open>request.user\<close> (\<open>None\<close> for the anonymous user), its URL argument, the
  request's clock and the database, and returns what it answers or raises together with
  the database it leaves. \<open>login_required\<close>, \<open>staff_required\<close> and \<open>admin_required\<close>
  redirect a request that fails their test to the login page before the view runs.
\<close>

definition checkout_resource :: "user option \<Rightarrow> nat \<Rightarrow> clock \<Rightarrow> db \<Rightarrow> outcome" where
  "checkout_resource request_user pk clk s =
     (case request_user of
        None \<Rightarrow> (Inr (Redirect To_login []), s)
      | Some patron \<Rightarrow>
          if \<not> is_patron patron then
            (Inr (Redirect (To_resource_detail pk) [(MSG_ERROR, Only_patrons_can_checkout)]), s)
          else
            (case get_resource pk s of
               None \<Rightarrow> (Inl Http404, s)
             | Some resource \<Rightarrow>
                 if resource_status resource \<noteq> AVAILABLE then
                   (Inr (Redirect (To_resource_detail pk)
                      [(MSG_ERROR, Resource_not_available)]), s)
                 else
                   (case calculate_due_date clk of
                      (Inl e, clk1) \<Rightarrow> (Inl e, s)
                    | (Inr due, clk1) \<Rightarrow>
                        (let checkout =
                               \<lparr>co_id = next_id (map co_id (checkouts s)),
                                co_patron = user_id patron,
                                co_resource = resource_id resource,
                                checkout_date = now clk1, due_date = due,
                                co_status = ACTIVE\<rparr>;
                             s1 = s\<lparr>checkouts := checkouts s @ [checkout]\<rparr>;
                             s2 = save_resource (resource\<lparr>resource_status := CHECKED_OUT\<rparr>) s1;
                             s3 = create_notification (user_id patron) NEW_RESOURCE
                                    (Note_checked_out (title resource) due) (tick clk1) s2
                         in (Inr (Redirect To_patron_dashboard
                               [(MSG_SUCCESS, Checked_out (title resource))]), s3)))))"

text \<open>
  What both return views do once they hold the checkout row and have seen it \<open>ACTIVE\<close>:
  lines 151 to 158 of \<open>return_resource\<close> and lines 247 to 254 of \<open>staff_process_return\<close>
  are the same statements. \<open>Return.objects.create\<close> raises \<open>IntegrityError\<close> when the
  checkout already has its one return row and writes the fine through the column's
  \<open>DecimalField\<close>, while the view keeps the float it computed for its messages;
  \<open>checkout.resource\<close> raises \<open>DoesNotExist\<close> when the row it refers to is gone. The result is the fine, the resource, the clock and the
  database, or the error with the database as the statements before it left it.
\<close>

text \<open>The checkout has no return row yet.\<close>

definition unreturned :: "nat \<Rightarrow> db \<Rightarrow> bool" where
  "unreturned cid s = list_all (\<lambda>r. ret_checkout r \<noteq> cid) (returns s)"

definition record_return ::
    "checkout \<Rightarrow> clock \<Rightarrow> db \<Rightarrow> (error + (int \<times> resource \<times> clock)) \<times> db" where
  "record_return checkout clk s =
     (case calculate_overdue_fine checkout clk of
        (fine, clk1) \<Rightarrow>
          if \<not> unreturned (co_id checkout) s then (Inl IntegrityError, s)
          else
            (let s1 = s\<lparr>returns := returns s @
                        [\<lparr>ret_id = next_id (map ret_id (returns s)),
                          ret_checkout = co_id checkout, returned_at = now clk1,
                          fine_amount = decimal_field_to_python fine\<rparr>]\<rparr>;
                 s2 = save_checkout (checkout\<lparr>co_status := RETURNED\<rparr>) s1
             in case get_resource (co_resource checkout) s2 of
                  None \<Rightarrow> (Inl DoesNotExist, s2)
                | Some resource \<Rightarrow>
                    (let resource1 = resource\<lparr>resource_status := AVAILABLE\<rparr>;
                         s3 = save_resource resource1 s2
                     in (Inr (fine, resource1, tick clk1), s3))))"

definition return_resource :: "user option \<Rightarrow> nat \<Rightarrow> clock \<Rightarrow> db \<Rightarrow> outcome" where
  "return_resource request_user checkout_id clk s =
     (case request_user of
        None \<Rightarrow> (Inr (Redirect To_login []), s)
      | Some patron \<Rightarrow>
          (case get_checkout_of checkout_id (user_id patron) s of
             None \<Rightarrow> (Inl Http404, s)
           | Some checkout \<Rightarrow>
               if co_status checkout \<noteq> ACTIVE then
                 (Inr (Redirect To_patron_dashboard [(MSG_ERROR, Checkout_not_active)]), s)
               else
                 (case record_return checkout clk s of
                    (Inl e, s1) \<Rightarrow> (Inl e, s1)
                  | (Inr (fine, resource, clk1), s1) \<Rightarrow>
                      (let s2 =
                             (if fine > 0 then
                                create_notification (user_id patron) OVERDUE
                                  (Note_returned_overdue (title resource) fine) clk1 s1
                              else
                                create_notification (user_id patron) EVENT
                                  (Note_returned (title resource)) clk1 s1)
                       in (Inr (Redirect To_patron_dashboard
                             [(MSG_SUCCESS, Returned_fine (title resource) fine)]), s2)))))"

text \<open>\<open>Reservation.objects.filter(patron=patron, status=Reservation.STATUS_PENDING).count()\<close>\<close>

definition pending_count :: "nat \<Rightarrow> db \<Rightarrow> nat" where
  "pending_count uid s =
     length (filter (\<lambda>r. rsv_patron r = uid \<and> rsv_status r = PENDING) (reservations s))"

definition reserve_resource :: "user option \<Rightarrow> nat \<Rightarrow> clock \<Rightarrow> db \<Rightarrow> outcome" where
  "reserve_resource request_user pk clk s =
     (case request_user of
        None \<Rightarrow> (Inr (Redirect To_login []), s)
      | Some patron \<Rightarrow>
          (case get_resource pk s of
             None \<Rightarrow> (Inl Http404, s)
           | Some resource \<Rightarrow>
               (let active_res_count = pending_count (user_id patron) s
                in if active_res_count \<ge> MAX_ACTIVE_RESERVATIONS_PER_PATRON then
                     (Inr (Redirect (To_resource_detail pk)
                        [(MSG_ERROR, Reservation_limit_reached)]), s)
                   else if resource_status resource = AVAILABLE then
                     (Inr (Redirect (To_resource_detail pk)
                        [(MSG_INFO, Resource_is_available)]), s)
                   else
                     (let s1 = s\<lparr>reservations := reservations s @
                                 [\<lparr>rsv_id = next_id (map rsv_id (reservations s)),
                                   rsv_patron = user_id patron,
                                   rsv_resource = resource_id resource,
                                   rsv_created_at = now clk, rsv_status = PENDING,
                                   hold_until = None\<rparr>]\<rparr>;
                          s2 = save_resource (resource\<lparr>resource_status := RESERVED\<rparr>) s1;
                          s3 = create_notification (user_id patron) RES_AVAIL
                                 (Note_reservation_placed (title resource)) (tick clk) s2
                      in (Inr (Redirect To_patron_dashboard
                            [(MSG_SUCCESS, Reservation_placed (title resource))]), s3)))))"

text \<open>\<open>staff_required\<close>: the user is authenticated and \<open>is_staff_user()\<close>. The notification
  goes to \<open>checkout.patron\<close>, the user row the checkout refers to.\<close>

definition staff_process_return :: "user option \<Rightarrow> nat \<Rightarrow> clock \<Rightarrow> db \<Rightarrow> outcome" where
  "staff_process_return request_user checkout_id clk s =
     (case request_user of
        None \<Rightarrow> (Inr (Redirect To_login []), s)
      | Some staff \<Rightarrow>
          if \<not> is_staff_user staff then (Inr (Redirect To_login []), s)
          else
            (case get_checkout checkout_id s of
               None \<Rightarrow> (Inl Http404, s)
             | Some checkout \<Rightarrow>
                 if co_status checkout \<noteq> ACTIVE then
                   (Inr (Redirect To_staff_dashboard [(MSG_ERROR, Checkout_not_active)]), s)
                 else
                   (case record_return checkout clk s of
                      (Inl e, s1) \<Rightarrow> (Inl e, s1)
                    | (Inr (fine, resource, clk1), s1) \<Rightarrow>
                        (case get_user (co_patron checkout) s1 of
                           None \<Rightarrow> (Inl DoesNotExist, s1)
                         | Some patron \<Rightarrow>
                             (let s2 = create_notification (user_id patron)
                                         (if fine > 0 then OVERDUE else EVENT)
                                         (Note_return_by_staff (title resource) fine) clk1 s1
                              in (Inr (Redirect To_staff_dashboard
                                    [(MSG_SUCCESS, Return_processed (title resource) fine)]),
                                  s2))))))"

text \<open>\<open>admin_required\<close>: the user is authenticated and \<open>is_admin_user()\<close>.\<close>

definition admin_promote_to_staff :: "user option \<Rightarrow> nat \<Rightarrow> db \<Rightarrow> outcome" where
  "admin_promote_to_staff request_user uid s =
     (case request_user of
        None \<Rightarrow> (Inr (Redirect To_login []), s)
      | Some admin \<Rightarrow>
          if \<not> is_admin_user admin then (Inr (Redirect To_login []), s)
          else
            (case get_user uid s of
               None \<Rightarrow> (Inl Http404, s)
             | Some user \<Rightarrow>
                 (let s1 = save_user (user\<lparr>role := STAFF\<rparr>) s
                  in (Inr (Redirect To_admin_staff_list
                        [(MSG_SUCCESS, Promoted_to_staff (username user))]), s1))))"

definition admin_deactivate_staff :: "user option \<Rightarrow> nat \<Rightarrow> db \<Rightarrow> outcome" where
  "admin_deactivate_staff request_user uid s =
     (case request_user of
        None \<Rightarrow> (Inr (Redirect To_login []), s)
      | Some admin \<Rightarrow>
          if \<not> is_admin_user admin then (Inr (Redirect To_login []), s)
          else
            (case get_staff uid s of
               None \<Rightarrow> (Inl Http404, s)
             | Some user \<Rightarrow>
                 (let s1 = save_user (user\<lparr>is_active := False\<rparr>) s
                  in (Inr (Redirect To_admin_staff_list
                        [(MSG_SUCCESS, Deactivated (username user))]), s1))))"

text \<open>
  \<open>annotate(checkout_count=Count("checkouts")).order_by("-checkout_count")[:20]\<close>: the
  resources with the number of checkout rows that refer to each, most checked out
  first. The database chooses the order among equal counts; the model keeps the table's.
\<close>

definition checkout_count :: "db \<Rightarrow> resource \<Rightarrow> nat" where
  "checkout_count s r = length (filter (\<lambda>c. co_resource c = resource_id r) (checkouts s))"

definition popular_resources :: "nat \<Rightarrow> db \<Rightarrow> resource list" where
  "popular_resources n s = take n (sort_key (\<lambda>r. - int (checkout_count s r)) (resources s))"

definition generate_popular_resources_report :: "user option \<Rightarrow> clock \<Rightarrow> db \<Rightarrow> outcome" where
  "generate_popular_resources_report request_user clk s =
     (case request_user of
        None \<Rightarrow> (Inr (Redirect To_login []), s)
      | Some staff \<Rightarrow>
          if \<not> is_staff_user staff then (Inr (Redirect To_login []), s)
          else
            (let rows = map (\<lambda>r. (title r, checkout_count s r)) (popular_resources 20 s);
                 report = \<lparr>rep_id = next_id (map rep_id (reports s)),
                           report_type = POPULAR_RESOURCES, generated_at = now clk,
                           data = rows\<rparr>;
                 s1 = s\<lparr>reports := reports s @ [report]\<rparr>
             in (Inr (Redirect To_staff_dashboard
                   [(MSG_SUCCESS, Report_generated (rep_id report))]), s1)))"

section \<open>Requests, runs and the properties stated about them\<close>

text \<open>The state-changing requests the URL table routes, and what each does.\<close>

datatype operation =
    Checkout_resource "user option" nat
  | Return_resource "user option" nat
  | Reserve_resource "user option" nat
  | Staff_process_return "user option" nat
  | Admin_promote_to_staff "user option" nat
  | Admin_deactivate_staff "user option" nat
  | Generate_popular_resources_report "user option"

fun perform :: "operation \<Rightarrow> clock \<Rightarrow> db \<Rightarrow> outcome" where
  "perform (Checkout_resource u pk) clk s = checkout_resource u pk clk s"
| "perform (Return_resource u cid) clk s = return_resource u cid clk s"
| "perform (Reserve_resource u pk) clk s = reserve_resource u pk clk s"
| "perform (Staff_process_return u cid) clk s = staff_process_return u cid clk s"
| "perform (Admin_promote_to_staff u uid) clk s = admin_promote_to_staff u uid s"
| "perform (Admin_deactivate_staff u uid) clk s = admin_deactivate_staff u uid s"
| "perform (Generate_popular_resources_report u) clk s =
     generate_popular_resources_report u clk s"

text \<open>A run: requests served one after the other, each with its own clock readings.\<close>

fun run :: "(operation \<times> clock) list \<Rightarrow> db \<Rightarrow> db" where
  "run [] s = s"
| "run ((op, clk) # rest) s = run rest (snd (perform op clk s))"

text \<open>A request succeeded when the view answered with its success message.\<close>

fun succeeded :: "error + response \<Rightarrow> bool" where
  "succeeded (Inr (Redirect target msgs)) = (map fst msgs = [MSG_SUCCESS])"
| "succeeded (Inl e) = False"

text \<open>The checkout row a return request is about: the row \<open>get_object_or_404\<close> hands the
  view once the decorator has let the request through (the patron's own checkout for
  \<open>return_resource\<close>, any checkout for a staff user's \<open>staff_process_return\<close>).\<close>

fun return_request :: "operation \<Rightarrow> db \<Rightarrow> checkout option" where
  "return_request (Return_resource (Some u) cid) s = get_checkout_of cid (user_id u) s"
| "return_request (Staff_process_return (Some st) cid) s =
     (if is_staff_user st then get_checkout cid s else None)"
| "return_request other s = None"

definition active_checkouts :: "nat \<Rightarrow> db \<Rightarrow> checkout list" where
  "active_checkouts rid s =
     filter (\<lambda>c. co_resource c = rid \<and> co_status c = ACTIVE) (checkouts s)"

text \<open>Each resource has at most one \<open>ACTIVE\<close> checkout: checked for the resource of every
  checkout row (a resource that no row refers to has none).\<close>

definition at_most_one_active :: "db \<Rightarrow> bool" where
  "at_most_one_active s =
     list_all (\<lambda>c. length (active_checkouts (co_resource c) s) \<le> 1) (checkouts s)"

text \<open>No row of the checkout with this primary key is \<open>ACTIVE\<close>.\<close>

definition not_active :: "nat \<Rightarrow> db \<Rightarrow> bool" where
  "not_active cid s = list_all (\<lambda>c. co_id c \<noteq> cid \<or> co_status c \<noteq> ACTIVE) (checkouts s)"

subsection \<open>A small library for the concrete checks\<close>

definition alice :: user where
  "alice = \<lparr>user_id = 1, username = ''alice'', role = PATRON, is_active = True\<rparr>"

definition bob :: user where
  "bob = \<lparr>user_id = 2, username = ''bob'', role = STAFF, is_active = True\<rparr>"

definition carol :: user where
  "carol = \<lparr>user_id = 3, username = ''carol'', role = ADMIN, is_active = True\<rparr>"

definition dune :: "resource_status \<Rightarrow> resource" where
  "dune st = \<lparr>resource_id = 1, title = ''Dune'', author = ''Herbert'', resource_type = BOOK,
     rfid_tag = None, barcode = None, resource_status = st, resource_created_at = 0\<rparr>"

definition loan :: "checkout_status \<Rightarrow> checkout" where
  "loan st = \<lparr>co_id = 1, co_patron = 1, co_resource = 1, checkout_date = 0,
     due_date = 14 * usec_per_day, co_status = st\<rparr>"

definition hold :: "nat \<Rightarrow> nat \<Rightarrow> reservation" where
  "hold i uid = \<lparr>rsv_id = i, rsv_patron = uid, rsv_resource = 1, rsv_created_at = 0,
     rsv_status = PENDING, hold_until = None\<rparr>"

text \<open>The holds numbered 1 to \<open>n\<close> of one patron.\<close>

definition holds :: "nat \<Rightarrow> nat \<Rightarrow> reservation list" where
  "holds n uid = map (\<lambda>i. hold i uid) [1..<Suc n]"

definition library :: "resource_status \<Rightarrow> checkout list \<Rightarrow> reservation list \<Rightarrow> db" where
  "library st cs rs = \<lparr>users = [alice, bob, carol], resources = [dune st], checkouts = cs,
     returns = [], reservations = rs, notifications = [], reports = []\<rparr>"

text \<open>A clock whose readings start at \<open>t\<close> and are one microsecond apart.\<close>

definition clock_from :: "time \<Rightarrow> clock" where
  "clock_from t = (\<lambda>n. t + int n)"

section \<open>Auxiliary facts\<close>

subsection \<open>Unfolding sets for concrete evaluation\<close>

lemmas example_defs = alice_def bob_def carol_def dune_def loan_def hold_def library_def
  clock_from_def

lemmas lookup_defs = get_resource_def get_checkout_def get_checkout_of_def get_user_def
  get_staff_def is_patron_def is_staff_user_def is_admin_user_def

lemmas return_defs = return_resource_def staff_process_return_def record_return_def
  calculate_overdue_fine_def is_overdue_def days_of_def now_def tick_def unreturned_def
  save_checkout_def save_resource_def create_notification_def next_id_def Let_def

subsection \<open>Checkout: the unbound name\<close>

text \<open>\<open>timedelta\<close> is not a name of the module, so \<open>calculate_due_date\<close> always raises and
  \<open>checkout_resource\<close> never changes the database.\<close>

lemma timedelta_unbound: "''timedelta'' \<notin> set views_names"
  by (simp add: views_names_def)

lemma calculate_due_date_raises:
  "calculate_due_date clk = (Inl (NameError ''timedelta''), tick clk)"
  by (simp add: calculate_due_date_def timedelta_unbound Let_def)

lemma checkout_resource_frame: "snd (checkout_resource u pk clk s) = s"
  by (simp add: checkout_resource_def calculate_due_date_raises split: option.splits)

lemma checkout_resource_raises:
  assumes "is_patron u" and "get_resource pk s = Some r" and "resource_status r = AVAILABLE"
  shows "checkout_resource (Some u) pk clk s = (Inl (NameError ''timedelta''), s)"
  using assms by (simp add: checkout_resource_def calculate_due_date_raises)

subsection \<open>Returns\<close>

lemma create_notification_frame:
  "users (create_notification uid ty m clk s) = users s"
  "resources (create_notification uid ty m clk s) = resources s"
  "checkouts (create_notification uid ty m clk s) = checkouts s"
  "returns (create_notification uid ty m clk s) = returns s"
  "reservations (create_notification uid ty m clk s) = reservations s"
  "reports (create_notification uid ty m clk s) = reports s"
  by (simp_all add: create_notification_def)

lemma record_return_IntegrityError:
  "\<not> unreturned (co_id c) s \<Longrightarrow> record_return c clk s = (Inl IntegrityError, s)"
  by (simp add: record_return_def split: prod.splits)

lemma checkouts_record_return:
  "unreturned (co_id c) s \<Longrightarrow>
   checkouts (snd (record_return c clk s)) =
     map (\<lambda>x. if co_id x = co_id c then c\<lparr>co_status := RETURNED\<rparr> else x) (checkouts s)"
  by (simp add: record_return_def save_checkout_def save_resource_def Let_def
      split: prod.splits option.splits)

lemma reservations_record_return:
  "reservations (snd (record_return c clk s)) = reservations s"
  by (simp add: record_return_def save_checkout_def save_resource_def Let_def
      split: prod.splits option.splits)

lemma get_checkout_of_SomeD:
  "get_checkout_of cid uid s = Some c \<Longrightarrow> c \<in> set (checkouts s) \<and> co_id c = cid \<and> co_patron c = uid"
  by (auto simp: get_checkout_of_def find_Some_iff)

lemma get_checkout_SomeD:
  "get_checkout cid s = Some c \<Longrightarrow> c \<in> set (checkouts s) \<and> co_id c = cid"
  by (auto simp: get_checkout_def find_Some_iff)

lemma return_request_SomeD:
  "return_request op s = Some c \<Longrightarrow> c \<in> set (checkouts s)"
  by (induction op s rule: return_request.induct)
     (auto dest: get_checkout_of_SomeD get_checkout_SomeD split: if_splits)

lemma not_activeD:
  "not_active cid s \<Longrightarrow> c \<in> set (checkouts s) \<Longrightarrow> co_id c = cid \<Longrightarrow> co_status c \<noteq> ACTIVE"
  by (auto simp: not_active_def list_all_iff)

lemma return_resource_not_active:
  assumes "not_active cid s"
  shows "snd (return_resource u cid clk s) = s \<and> \<not> succeeded (fst (return_resource u cid clk s))"
proof (cases u)
  case None
  then show ?thesis by (simp add: return_resource_def)
next
  case (Some p)
  show ?thesis
  proof (cases "get_checkout_of cid (user_id p) s")
    case None
    then show ?thesis using Some by (simp add: return_resource_def)
  next
    case (Some c)
    then have "co_status c \<noteq> ACTIVE"
      using assms by (blast dest: get_checkout_of_SomeD not_activeD)
    then show ?thesis using Some \<open>u = Some p\<close> by (simp add: return_resource_def)
  qed
qed

lemma staff_process_return_not_active:
  assumes "not_active cid s"
  shows "snd (staff_process_return u cid clk s) = s
       \<and> \<not> succeeded (fst (staff_process_return u cid clk s))"
proof (cases u)
  case None
  then show ?thesis by (simp add: staff_process_return_def)
next
  case (Some p)
  show ?thesis
  proof (cases "get_checkout cid s")
    case None
    then show ?thesis using Some by (simp add: staff_process_return_def)
  next
    case (Some c)
    then have "co_status c \<noteq> ACTIVE"
      using assms by (blast dest: get_checkout_SomeD not_activeD)
    then show ?thesis using Some \<open>u = Some p\<close> by (simp add: staff_process_return_def)
  qed
qed

lemma succeeded_return_resource:
  assumes "get_checkout_of cid (user_id u) s = Some c"
    and "succeeded (fst (return_resource (Some u) cid clk s))"
  shows "co_status c = ACTIVE \<and> unreturned (co_id c) s
       \<and> checkouts (snd (return_resource (Some u) cid clk s)) = checkouts (snd (record_return c clk s))"
proof -
  have a: "co_status c = ACTIVE"
    using assms by (auto simp: return_resource_def split: if_splits)
  have b: "unreturned (co_id c) s"
  proof (rule ccontr)
    assume "\<not> unreturned (co_id c) s"
    then have "record_return c clk s = (Inl IntegrityError, s)"
      by (rule record_return_IntegrityError)
    then show False using assms a by (simp add: return_resource_def)
  qed
  show ?thesis
    using assms a b
    by (simp add: return_resource_def create_notification_frame Let_def
        split: prod.splits sum.splits)
qed

lemma succeeded_staff_process_return:
  assumes "is_staff_user st" and "get_checkout cid s = Some c"
    and "succeeded (fst (staff_process_return (Some st) cid clk s))"
  shows "co_status c = ACTIVE \<and> unreturned (co_id c) s
       \<and> checkouts (snd (staff_process_return (Some st) cid clk s)) =
           checkouts (snd (record_return c clk s))"
proof -
  have a: "co_status c = ACTIVE"
    using assms by (auto simp: staff_process_return_def split: if_splits)
  have b: "unreturned (co_id c) s"
  proof (rule ccontr)
    assume "\<not> unreturned (co_id c) s"
    then have "record_return c clk s = (Inl IntegrityError, s)"
      by (rule record_return_IntegrityError)
    then show False using assms a by (simp add: staff_process_return_def)
  qed
  show ?thesis
    using assms a b
    by (simp add: staff_process_return_def create_notification_frame Let_def
        split: prod.splits sum.splits option.splits)
qed

lemma succeeded_return_request:
  assumes "return_request op s = Some c" and "succeeded (fst (perform op clk s))"
  shows "co_status c = ACTIVE \<and> unreturned (co_id c) s
       \<and> checkouts (snd (perform op clk s)) = checkouts (snd (record_return c clk s))"
  using assms
  by (induction op s rule: return_request.induct)
     (simp_all add: succeeded_return_resource succeeded_staff_process_return split: if_splits)

lemma not_active_after_return:
  assumes "return_request op s = Some c" and "succeeded (fst (perform op clk s))"
  shows "not_active (co_id c) (snd (perform op clk s))"
proof -
  have "checkouts (snd (perform op clk s)) =
          map (\<lambda>x. if co_id x = co_id c then c\<lparr>co_status := RETURNED\<rparr> else x) (checkouts s)"
    using succeeded_return_request[OF assms] by (simp add: checkouts_record_return)
  then show ?thesis
    by (auto simp: not_active_def list_all_iff)
qed








subsection \<open>Reservations\<close>

lemmas reserve_defs = reserve_resource_def pending_count_def
  MAX_ACTIVE_RESERVATIONS_PER_PATRON_def save_resource_def create_notification_def
  next_id_def now_def tick_def Let_def

lemma get_resource_SomeD:
  "get_resource pk s = Some r \<Longrightarrow> r \<in> set (resources s) \<and> resource_id r = pk"
  by (auto simp: get_resource_def find_Some_iff)

lemma find_replaced:
  assumes "find (\<lambda>x. key x = k) xs = Some y" and "key z = k"
  shows "find (\<lambda>x. key x = k) (map (\<lambda>x. if key x = k then z else x) xs) = Some z"
  using assms by (induction xs) (auto split: if_splits)

lemma get_resource_save_resource:
  assumes "get_resource pk s = Some r" and "resource_id r' = pk"
  shows "get_resource pk (save_resource r' s) = Some r'"
  using find_replaced[of resource_id pk "resources s" r r'] assms
  by (simp add: get_resource_def save_resource_def)

lemma reserve_resource_at_cap:
  assumes "MAX_ACTIVE_RESERVATIONS_PER_PATRON \<le> pending_count (user_id u) s"
  shows "snd (reserve_resource (Some u) pk clk s) = s
       \<and> \<not> succeeded (fst (reserve_resource (Some u) pk clk s))"
  using assms by (simp add: reserve_resource_def split: option.splits)

lemma reserve_resource_under_cap:
  assumes "pending_count (user_id u) s < MAX_ACTIVE_RESERVATIONS_PER_PATRON"
  shows "fst (reserve_resource (Some u) pk clk s) \<noteq>
           Inr (Redirect (To_resource_detail pk) [(MSG_ERROR, Reservation_limit_reached)])"
  using assms by (simp add: reserve_resource_def Let_def split: option.splits)

lemma reserve_resource_placed:
  assumes "get_resource pk s = Some r" and "resource_status r \<noteq> AVAILABLE"
    and "pending_count (user_id u) s < MAX_ACTIVE_RESERVATIONS_PER_PATRON"
  shows "reserve_resource (Some u) pk clk s =
           (Inr (Redirect To_patron_dashboard [(MSG_SUCCESS, Reservation_placed (title r))]),
            create_notification (user_id u) RES_AVAIL (Note_reservation_placed (title r))
              (tick clk)
              (save_resource (r\<lparr>resource_status := RESERVED\<rparr>)
                 (s\<lparr>reservations := reservations s @
                      [\<lparr>rsv_id = next_id (map rsv_id (reservations s)),
                        rsv_patron = user_id u, rsv_resource = resource_id r,
                        rsv_created_at = now clk, rsv_status = PENDING,
                        hold_until = None\<rparr>]\<rparr>)))"
  using assms by (simp add: reserve_resource_def Let_def)

lemma reserve_resource_placed_tables:
  assumes "get_resource pk s = Some r" and "resource_status r \<noteq> AVAILABLE"
    and "pending_count (user_id u) s < MAX_ACTIVE_RESERVATIONS_PER_PATRON"
  shows "succeeded (fst (reserve_resource (Some u) pk clk s))"
    and "reservations (snd (reserve_resource (Some u) pk clk s)) = reservations s @
           [\<lparr>rsv_id = next_id (map rsv_id (reservations s)), rsv_patron = user_id u,
             rsv_resource = pk, rsv_created_at = now clk, rsv_status = PENDING,
             hold_until = None\<rparr>]"
    and "get_resource pk (snd (reserve_resource (Some u) pk clk s)) =
           Some (r\<lparr>resource_status := RESERVED\<rparr>)"
    and "pending_count (user_id u) (snd (reserve_resource (Some u) pk clk s)) =
           Suc (pending_count (user_id u) s)"
proof -
  have id: "resource_id r = pk"
    using assms(1) by (simp add: get_resource_SomeD)
  note placed = reserve_resource_placed[OF assms]
  show "succeeded (fst (reserve_resource (Some u) pk clk s))"
    by (simp add: placed)
  show "reservations (snd (reserve_resource (Some u) pk clk s)) = reservations s @
           [\<lparr>rsv_id = next_id (map rsv_id (reservations s)), rsv_patron = user_id u,
             rsv_resource = pk, rsv_created_at = now clk, rsv_status = PENDING,
             hold_until = None\<rparr>]"
    by (simp add: placed id create_notification_frame save_resource_def)
  then show "pending_count (user_id u) (snd (reserve_resource (Some u) pk clk s)) =
           Suc (pending_count (user_id u) s)"
    by (simp add: pending_count_def)
  have "get_resource pk (s\<lparr>reservations := reservations s @
                      [\<lparr>rsv_id = next_id (map rsv_id (reservations s)),
                        rsv_patron = user_id u, rsv_resource = resource_id r,
                        rsv_created_at = now clk, rsv_status = PENDING,
                        hold_until = None\<rparr>]\<rparr>) = Some r"
    using assms(1) by (simp add: get_resource_def)
  then have "get_resource pk (save_resource (r\<lparr>resource_status := RESERVED\<rparr>)
                    (s\<lparr>reservations := reservations s @
                      [\<lparr>rsv_id = next_id (map rsv_id (reservations s)),
                        rsv_patron = user_id u, rsv_resource = resource_id r,
                        rsv_created_at = now clk, rsv_status = PENDING,
                        hold_until = None\<rparr>]\<rparr>)) = Some (r\<lparr>resource_status := RESERVED\<rparr>)"
    using id by (intro get_resource_save_resource) simp_all
  moreover have "get_resource pk (create_notification a b c d e) = get_resource pk e"
    for a b c d e
    by (simp add: get_resource_def create_notification_frame)
  ultimately show "get_resource pk (snd (reserve_resource (Some u) pk clk s)) =
           Some (r\<lparr>resource_status := RESERVED\<rparr>)"
    by (simp add: placed)
qed

lemma pending_count_holds: "pending_count uid (library st cs (holds n uid)) = n"
  by (simp add: pending_count_def library_def holds_def hold_def filter_map comp_def)

subsection \<open>Promotion\<close>

lemma get_user_SomeD: "get_user uid s = Some u \<Longrightarrow> u \<in> set (users s) \<and> user_id u = uid"
  by (auto simp: get_user_def find_Some_iff)

lemma get_user_save_user:
  assumes "get_user uid s = Some u" and "user_id u' = uid"
  shows "get_user uid (save_user u' s) = Some u'"
  using find_replaced[of user_id uid "users s" u u'] assms
  by (simp add: get_user_def save_user_def)

lemma save_user_twice:
  "save_user u (save_user u s) = save_user u s"
  by (simp add: save_user_def comp_def)

lemma admin_promote_to_staff_done:
  assumes "is_admin_user a" and "get_user uid s = Some u"
  shows "admin_promote_to_staff (Some a) uid s =
           (Inr (Redirect To_admin_staff_list [(MSG_SUCCESS, Promoted_to_staff (username u))]),
            save_user (u\<lparr>role := STAFF\<rparr>) s)"
  using assms by (simp add: admin_promote_to_staff_def)

lemma admin_promote_to_staff_again:
  assumes "get_user uid s = Some u"
  shows "snd (admin_promote_to_staff b uid (save_user (u\<lparr>role := STAFF\<rparr>) s)) =
           save_user (u\<lparr>role := STAFF\<rparr>) s"
proof -
  let ?u = "u\<lparr>role := STAFF\<rparr>"
  have id: "user_id ?u = uid"
    using assms by (simp add: get_user_SomeD)
  then have found: "get_user uid (save_user ?u s) = Some ?u"
    using assms by (rule_tac get_user_save_user)
  show ?thesis
  proof (cases b)
    case None
    then show ?thesis by (simp add: admin_promote_to_staff_def)
  next
    case (Some a)
    then show ?thesis
      using found by (simp add: admin_promote_to_staff_def save_user_twice)
  qed
qed

subsection \<open>The resource and the reservations after a return\<close>

lemma resources_record_return:
  assumes "unreturned (co_id c) s" and "get_resource (co_resource c) s = Some r"
  shows "resources (snd (record_return c clk s)) =
           map (\<lambda>x. if resource_id x = co_resource c then r\<lparr>resource_status := AVAILABLE\<rparr> else x)
             (resources s)"
proof -
  have id: "resource_id r = co_resource c"
    using assms(2) by (simp add: get_resource_SomeD)
  have "get_resource (co_resource c)
          (save_checkout (c\<lparr>co_status := RETURNED\<rparr>) (s\<lparr>returns := rs\<rparr>)) = Some r" for rs
    using assms(2) by (simp add: get_resource_def save_checkout_def)
  then show ?thesis
    using assms(1) id
    by (simp add: record_return_def Let_def save_resource_def save_checkout_def
        split: prod.splits)
qed

lemma return_resource_tables:
  assumes "get_checkout_of cid (user_id u) s = Some c" and "co_status c = ACTIVE"
  shows "resources (snd (return_resource (Some u) cid clk s)) =
           resources (snd (record_return c clk s))"
    and "reservations (snd (return_resource (Some u) cid clk s)) =
           reservations (snd (record_return c clk s))"
  using assms
  by (simp_all add: return_resource_def create_notification_frame Let_def
      split: prod.splits sum.splits)

lemma staff_process_return_tables:
  assumes "is_staff_user st" and "get_checkout cid s = Some c" and "co_status c = ACTIVE"
  shows "resources (snd (staff_process_return (Some st) cid clk s)) =
           resources (snd (record_return c clk s))"
    and "reservations (snd (staff_process_return (Some st) cid clk s)) =
           reservations (snd (record_return c clk s))"
  using assms
  by (simp_all add: staff_process_return_def create_notification_frame Let_def
      split: prod.splits sum.splits option.splits)

lemma return_request_tables:
  assumes "return_request op s = Some c" and "co_status c = ACTIVE"
  shows "resources (snd (perform op clk s)) = resources (snd (record_return c clk s))"
    and "reservations (snd (perform op clk s)) = reservations s"
  using assms
  by (induction op s rule: return_request.induct)
     (simp_all add: return_resource_tables staff_process_return_tables
        reservations_record_return split: if_splits)

subsection \<open>Active checkouts per resource\<close>

lemma length_filter_map_le:
  assumes "\<And>x. P (f x) \<Longrightarrow> P x"
  shows "length (filter P (map f xs)) \<le> length (filter P xs)"
  using assms by (induction xs) auto

lemma at_most_one_active_iff:
  "at_most_one_active s \<longleftrightarrow> (\<forall>rid. length (active_checkouts rid s) \<le> 1)"
proof
  assume inv: "at_most_one_active s"
  show "\<forall>rid. length (active_checkouts rid s) \<le> 1"
  proof
    fix rid
    show "length (active_checkouts rid s) \<le> 1"
    proof (cases "\<exists>c \<in> set (checkouts s). co_resource c = rid")
      case True
      then show ?thesis
        using inv by (auto simp: at_most_one_active_def list_all_iff)
    next
      case False
      then have "active_checkouts rid s = []"
        by (auto simp: active_checkouts_def filter_empty_conv)
      then show ?thesis by simp
    qed
  qed
next
  assume "\<forall>rid. length (active_checkouts rid s) \<le> 1"
  then show "at_most_one_active s"
    by (simp add: at_most_one_active_def list_all_iff)
qed

lemma active_checkouts_after_return:
  assumes "checkouts s' =
      map (\<lambda>x. if co_id x = co_id c then c\<lparr>co_status := RETURNED\<rparr> else x) (checkouts s)"
  shows "length (active_checkouts rid s') \<le> length (active_checkouts rid s)"
  unfolding active_checkouts_def assms
  by (rule length_filter_map_le) (simp split: if_splits)

lemma checkouts_return_resource:
  "checkouts (snd (return_resource u cid clk s)) = checkouts s
   \<or> (\<exists>c. checkouts (snd (return_resource u cid clk s)) =
        map (\<lambda>x. if co_id x = co_id c then c\<lparr>co_status := RETURNED\<rparr> else x) (checkouts s))"
proof (cases u)
  case None
  then show ?thesis by (simp add: return_resource_def)
next
  case (Some p)
  show ?thesis
  proof (cases "get_checkout_of cid (user_id p) s")
    case None
    then show ?thesis using Some by (simp add: return_resource_def)
  next
    case found: (Some c)
    show ?thesis
    proof (cases "co_status c = ACTIVE \<and> unreturned (co_id c) s")
      case True
      then have "checkouts (snd (return_resource u cid clk s)) =
          checkouts (snd (record_return c clk s))"
        using Some found
        by (simp add: return_resource_def create_notification_frame Let_def
            split: prod.splits sum.splits)
      then show ?thesis
        using True by (auto simp: checkouts_record_return)
    next
      case False
      then show ?thesis
        using Some found
        by (auto simp: return_resource_def record_return_IntegrityError)
    qed
  qed
qed

lemma checkouts_staff_process_return:
  "checkouts (snd (staff_process_return u cid clk s)) = checkouts s
   \<or> (\<exists>c. checkouts (snd (staff_process_return u cid clk s)) =
        map (\<lambda>x. if co_id x = co_id c then c\<lparr>co_status := RETURNED\<rparr> else x) (checkouts s))"
proof (cases u)
  case None
  then show ?thesis by (simp add: staff_process_return_def)
next
  case (Some p)
  show ?thesis
  proof (cases "is_staff_user p")
    case False
    then show ?thesis using Some by (simp add: staff_process_return_def)
  next
    case staff: True
    show ?thesis
    proof (cases "get_checkout cid s")
      case None
      then show ?thesis using Some by (simp add: staff_process_return_def)
    next
      case found: (Some c)
      show ?thesis
      proof (cases "co_status c = ACTIVE \<and> unreturned (co_id c) s")
        case True
        then have "checkouts (snd (staff_process_return u cid clk s)) =
            checkouts (snd (record_return c clk s))"
          using Some found staff
          by (simp add: staff_process_return_def create_notification_frame Let_def
              split: prod.splits sum.splits option.splits)
        then show ?thesis
          using True by (auto simp: checkouts_record_return)
      next
        case False
        then show ?thesis
          using Some found staff
          by (auto simp: staff_process_return_def record_return_IntegrityError)
      qed
    qed
  qed
qed

lemma checkouts_reserve_resource:
  "checkouts (snd (reserve_resource u pk clk s)) = checkouts s"
  by (simp add: reserve_resource_def create_notification_frame save_resource_def Let_def
      split: option.splits)

lemma checkouts_admin_promote_to_staff:
  "checkouts (snd (admin_promote_to_staff u uid s)) = checkouts s"
  by (simp add: admin_promote_to_staff_def save_user_def split: option.splits)

lemma checkouts_admin_deactivate_staff:
  "checkouts (snd (admin_deactivate_staff u uid s)) = checkouts s"
  by (simp add: admin_deactivate_staff_def save_user_def split: option.splits)

lemma checkouts_generate_popular_resources_report:
  "checkouts (snd (generate_popular_resources_report u clk s)) = checkouts s"
  by (simp add: generate_popular_resources_report_def Let_def split: option.splits)

lemma checkouts_perform:
  "checkouts (snd (perform op clk s)) = checkouts s
   \<or> (\<exists>c. checkouts (snd (perform op clk s)) =
        map (\<lambda>x. if co_id x = co_id c then c\<lparr>co_status := RETURNED\<rparr> else x) (checkouts s))"
proof (cases op)
  case (Checkout_resource u pk)
  then show ?thesis by (simp add: checkout_resource_frame)
next
  case (Return_resource u cid)
  then show ?thesis using checkouts_return_resource by simp
next
  case (Reserve_resource u pk)
  then show ?thesis by (simp add: checkouts_reserve_resource)
next
  case (Staff_process_return u cid)
  then show ?thesis using checkouts_staff_process_return by simp
next
  case (Admin_promote_to_staff u uid)
  then show ?thesis by (simp add: checkouts_admin_promote_to_staff)
next
  case (Admin_deactivate_staff u uid)
  then show ?thesis by (simp add: checkouts_admin_deactivate_staff)
next
  case (Generate_popular_resources_report u)
  then show ?thesis by (simp add: checkouts_generate_popular_resources_report)
qed

lemma at_most_one_active_perform:
  assumes "at_most_one_active s"
  shows "at_most_one_active (snd (perform op clk s))"
proof -
  have "length (active_checkouts rid (snd (perform op clk s))) \<le> 1" for rid
  proof -
    have "length (active_checkouts rid (snd (perform op clk s)))
            \<le> length (active_checkouts rid s)"
      using checkouts_perform[of op clk s]
    proof (elim disjE exE)
      assume "checkouts (snd (perform op clk s)) = checkouts s"
      then show ?thesis by (simp add: active_checkouts_def)
    next
      fix c
      assume "checkouts (snd (perform op clk s)) =
        map (\<lambda>x. if co_id x = co_id c then c\<lparr>co_status := RETURNED\<rparr> else x) (checkouts s)"
      then show ?thesis by (rule active_checkouts_after_return)
    qed
    moreover have "length (active_checkouts rid s) \<le> 1"
      using assms by (simp add: at_most_one_active_iff)
    ultimately show ?thesis by linarith
  qed
  then show ?thesis
    by (simp add: at_most_one_active_iff)
qed

lemma at_most_one_active_run:
  "at_most_one_active s \<Longrightarrow> at_most_one_active (run ops s)"
  by (induction ops s rule: run.induct) (simp_all add: at_most_one_active_perform)

section \<open>The claims\<close>

text \<open>
  \<^bold>\<open>C1\<close> (checkout of an available resource by a patron). The claim: the view creates one
  \<open>ACTIVE\<close> checkout due 14 days after its checkout date and sets the resource to
  \<open>CHECKED_OUT\<close>. The source does not: \<open>calculate_due_date\<close> evaluates the name
  \<open>timedelta\<close>, which \<open>views.py\<close> never imports, so the view raises \<open>NameError\<close> after its
  two guards and before its first write. Evaluated for the patron alice and the available
  resource 1: the answer is the error and the database is the one the request found, with
  no checkout row and the resource still \<open>AVAILABLE\<close>.
\<close>

theorem checkout_raises_NameError:
  "checkout_resource (Some alice) 1 (clock_from 0) (library AVAILABLE [] []) =
     (Inl (NameError ''timedelta''), library AVAILABLE [] [])"
  by (simp add: checkout_resource_def calculate_due_date_raises example_defs lookup_defs)




text \<open>
  \<^bold>\<open>C3\<close> (returning a checkout that is not active). When no row of checkout \<open>cid\<close> is
  \<open>ACTIVE\<close>, neither return view succeeds, whoever asks, and each leaves the whole
  database as it was: no return row is added and no checkout or resource column changes.
  In particular, once a return request for checkout \<open>c\<close> has succeeded, a second attempt on
  the same checkout through either view is rejected and changes nothing.
\<close>

theorem inactive_checkout_return_rejected:
  "(not_active cid s \<longrightarrow>
      snd (return_resource u cid clk s) = s \<and> \<not> succeeded (fst (return_resource u cid clk s))
    \<and> snd (staff_process_return u cid clk s) = s
    \<and> \<not> succeeded (fst (staff_process_return u cid clk s)))
 \<and> (return_request op s = Some c \<and> succeeded (fst (perform op clk1 s)) \<longrightarrow>
      (let s1 = snd (perform op clk1 s) in
         snd (return_resource u (co_id c) clk s1) = s1
       \<and> \<not> succeeded (fst (return_resource u (co_id c) clk s1))
       \<and> snd (staff_process_return u (co_id c) clk s1) = s1
       \<and> \<not> succeeded (fst (staff_process_return u (co_id c) clk s1))))"
  using return_resource_not_active staff_process_return_not_active not_active_after_return
  by (simp add: Let_def)

theorem inactive_checkout_return_rejected_witness:
  "not_active 1 (library AVAILABLE [loan RETURNED] [])
   \<and> snd (return_resource (Some alice) 1 (clock_from 0) (library AVAILABLE [loan RETURNED] []))
       = library AVAILABLE [loan RETURNED] []
   \<and> return_request (Return_resource (Some alice) 1) (library CHECKED_OUT [loan ACTIVE] [])
       = Some (loan ACTIVE)
   \<and> succeeded (fst (perform (Return_resource (Some alice) 1) (clock_from 0)
         (library CHECKED_OUT [loan ACTIVE] [])))
   \<and> snd (staff_process_return (Some bob) 1 (clock_from 9)
         (snd (perform (Return_resource (Some alice) 1) (clock_from 0)
            (library CHECKED_OUT [loan ACTIVE] []))))
       = snd (perform (Return_resource (Some alice) 1) (clock_from 0)
            (library CHECKED_OUT [loan ACTIVE] []))"
proof -
  let ?op = "Return_resource (Some alice) 1"
  let ?s = "library CHECKED_OUT [loan ACTIVE] []"
  let ?t = "library AVAILABLE [loan RETURNED] []"
  have h1: "not_active 1 ?t"
    by (simp add: example_defs not_active_def)
  have h2: "return_request ?op ?s = Some (loan ACTIVE)"
    by (simp add: example_defs lookup_defs)
  have h3: "succeeded (fst (perform ?op (clock_from 0) ?s))"
    by (simp add: example_defs lookup_defs return_defs usec_per_day_def)
  have c1: "snd (return_resource (Some alice) 1 (clock_from 0) ?t) = ?t"
    using h1 inactive_checkout_return_rejected
      [of 1 ?t "Some alice" "clock_from 0" ?op "loan ACTIVE" "clock_from 0"]
    by blast
  have "co_id (loan ACTIVE) = 1"
    by (simp add: example_defs)
  then have c2: "snd (staff_process_return (Some bob) 1 (clock_from 9)
        (snd (perform ?op (clock_from 0) ?s))) = snd (perform ?op (clock_from 0) ?s)"
    using h2 h3 inactive_checkout_return_rejected
      [of 1 ?s "Some bob" "clock_from 9" ?op "loan ACTIVE" "clock_from 0"]
    by (simp add: Let_def)
  show ?thesis
    using h1 h2 h3 c1 c2 by blast
qed

text \<open>
  \<^bold>\<open>C4\<close> (the reservation cap). With 10 or more \<open>PENDING\<close> reservations of the requesting
  user, \<open>reserve_resource\<close> does not succeed and leaves the database unchanged. With 9 or
  fewer it never answers with the limit message. And from exactly 9, on an existing
  resource that is not \<open>AVAILABLE\<close>, the tenth reservation succeeds and brings the count
  to 10, after which any further attempt of this user, on any resource, is rejected
  without change.
\<close>

theorem reservation_cap:
  "(MAX_ACTIVE_RESERVATIONS_PER_PATRON \<le> pending_count (user_id u) s \<longrightarrow>
       snd (reserve_resource (Some u) pk clk s) = s
     \<and> \<not> succeeded (fst (reserve_resource (Some u) pk clk s)))
 \<and> (pending_count (user_id u) s \<le> 9 \<longrightarrow>
       fst (reserve_resource (Some u) pk clk s) \<noteq>
         Inr (Redirect (To_resource_detail pk) [(MSG_ERROR, Reservation_limit_reached)]))
 \<and> (pending_count (user_id u) s = 9 \<and> get_resource pk s = Some r
       \<and> resource_status r \<noteq> AVAILABLE \<longrightarrow>
       (let s1 = snd (reserve_resource (Some u) pk clk s) in
          succeeded (fst (reserve_resource (Some u) pk clk s))
        \<and> pending_count (user_id u) s1 = 10
        \<and> snd (reserve_resource (Some u) pk1 clk1 s1) = s1
        \<and> \<not> succeeded (fst (reserve_resource (Some u) pk1 clk1 s1))))"
proof (intro conjI impI)
  assume "MAX_ACTIVE_RESERVATIONS_PER_PATRON \<le> pending_count (user_id u) s"
  then show "snd (reserve_resource (Some u) pk clk s) = s"
    and "\<not> succeeded (fst (reserve_resource (Some u) pk clk s))"
    by (simp_all add: reserve_resource_at_cap)
next
  assume "pending_count (user_id u) s \<le> 9"
  then have "pending_count (user_id u) s < MAX_ACTIVE_RESERVATIONS_PER_PATRON"
    by (simp add: MAX_ACTIVE_RESERVATIONS_PER_PATRON_def)
  then show "fst (reserve_resource (Some u) pk clk s) \<noteq>
         Inr (Redirect (To_resource_detail pk) [(MSG_ERROR, Reservation_limit_reached)])"
    by (rule reserve_resource_under_cap)
next
  assume a: "pending_count (user_id u) s = 9 \<and> get_resource pk s = Some r
       \<and> resource_status r \<noteq> AVAILABLE"
  then have lt: "pending_count (user_id u) s < MAX_ACTIVE_RESERVATIONS_PER_PATRON"
    by (simp add: MAX_ACTIVE_RESERVATIONS_PER_PATRON_def)
  let ?s1 = "snd (reserve_resource (Some u) pk clk s)"
  have ok: "succeeded (fst (reserve_resource (Some u) pk clk s))"
    using a lt by (simp add: reserve_resource_placed_tables(1))
  have ten: "pending_count (user_id u) ?s1 = 10"
    using a lt by (simp add: reserve_resource_placed_tables(4))
  then have "MAX_ACTIVE_RESERVATIONS_PER_PATRON \<le> pending_count (user_id u) ?s1"
    by (simp add: MAX_ACTIVE_RESERVATIONS_PER_PATRON_def)
  then have "snd (reserve_resource (Some u) pk1 clk1 ?s1) = ?s1
       \<and> \<not> succeeded (fst (reserve_resource (Some u) pk1 clk1 ?s1))"
    by (rule reserve_resource_at_cap)
  then show "let s1 = snd (reserve_resource (Some u) pk clk s) in
          succeeded (fst (reserve_resource (Some u) pk clk s))
        \<and> pending_count (user_id u) s1 = 10
        \<and> snd (reserve_resource (Some u) pk1 clk1 s1) = s1
        \<and> \<not> succeeded (fst (reserve_resource (Some u) pk1 clk1 s1))"
    using ok ten by (simp add: Let_def)
qed

theorem reservation_cap_witness:
  "MAX_ACTIVE_RESERVATIONS_PER_PATRON
     \<le> pending_count (user_id alice) (library CHECKED_OUT [] (holds 10 (user_id alice)))
   \<and> snd (reserve_resource (Some alice) 1 (clock_from 0)
            (library CHECKED_OUT [] (holds 10 (user_id alice))))
       = library CHECKED_OUT [] (holds 10 (user_id alice))
   \<and> pending_count (user_id alice) (library CHECKED_OUT [] (holds 9 (user_id alice))) = 9
   \<and> get_resource 1 (library CHECKED_OUT [] (holds 9 (user_id alice)))
       = Some (dune CHECKED_OUT)
   \<and> resource_status (dune CHECKED_OUT) \<noteq> AVAILABLE
   \<and> succeeded (fst (reserve_resource (Some alice) 1 (clock_from 0)
        (library CHECKED_OUT [] (holds 9 (user_id alice)))))
   \<and> pending_count (user_id alice)
        (snd (reserve_resource (Some alice) 1 (clock_from 0)
           (library CHECKED_OUT [] (holds 9 (user_id alice))))) = 10
   \<and> \<not> succeeded (fst (reserve_resource (Some alice) 1 (clock_from 5)
        (snd (reserve_resource (Some alice) 1 (clock_from 0)
           (library CHECKED_OUT [] (holds 9 (user_id alice)))))))"
proof -
  let ?full = "library CHECKED_OUT [] (holds 10 (user_id alice))"
  let ?nine = "library CHECKED_OUT [] (holds 9 (user_id alice))"
  have h1: "MAX_ACTIVE_RESERVATIONS_PER_PATRON \<le> pending_count (user_id alice) ?full"
    by (simp add: pending_count_holds MAX_ACTIVE_RESERVATIONS_PER_PATRON_def)
  have h2: "pending_count (user_id alice) ?nine = 9"
    by (simp add: pending_count_holds)
  have h3: "get_resource 1 ?nine = Some (dune CHECKED_OUT)"
    by (simp add: get_resource_def library_def dune_def)
  have h4: "resource_status (dune CHECKED_OUT) \<noteq> AVAILABLE"
    by (simp add: dune_def)
  have c1: "snd (reserve_resource (Some alice) 1 (clock_from 0) ?full) = ?full"
    using h1 reservation_cap [of alice ?full 1 "clock_from 0"] by blast
  have c2: "succeeded (fst (reserve_resource (Some alice) 1 (clock_from 0) ?nine))
      \<and> pending_count (user_id alice)
          (snd (reserve_resource (Some alice) 1 (clock_from 0) ?nine)) = 10
      \<and> \<not> succeeded (fst (reserve_resource (Some alice) 1 (clock_from 5)
          (snd (reserve_resource (Some alice) 1 (clock_from 0) ?nine))))"
    using h2 h3 h4
      reservation_cap [of alice ?nine 1 "clock_from 0" "dune CHECKED_OUT" 1 "clock_from 5"]
    by (simp add: Let_def)
  show ?thesis
    using h1 h2 h3 h4 c1 c2 by blast
qed

text \<open>
  \<^bold>\<open>C5\<close> (at most one active checkout per resource). Every run of requests that starts
  with an empty checkout table ends in a state where each resource has at most one
  \<open>ACTIVE\<close> checkout. And from any state with that property, every single request
  (checkout, either return, reserve, promote, deactivate, report) and every run of
  requests leads to a state with it: for every resource id, the \<open>ACTIVE\<close> checkout rows
  of that resource number at most one. Requests are served one after the other. In the
  source as it stands no request adds an \<open>ACTIVE\<close> row (see C1), and a return only turns
  rows \<open>RETURNED\<close>.
\<close>

theorem one_active_checkout_per_resource:
  "(checkouts s0 = [] \<longrightarrow> at_most_one_active (run ops s0))
 \<and> (at_most_one_active s \<longrightarrow>
       at_most_one_active (snd (perform op clk s)) \<and> at_most_one_active (run ops s)
     \<and> (\<forall>rid. length (active_checkouts rid (run ops s)) \<le> 1))"
proof -
  have "at_most_one_active s0" if "checkouts s0 = []"
    using that by (simp add: at_most_one_active_def)
  then show ?thesis
    using at_most_one_active_perform at_most_one_active_run at_most_one_active_iff
    by blast
qed

theorem one_active_checkout_per_resource_witness:
  "checkouts (library AVAILABLE [] []) = []
   \<and> at_most_one_active
        (run [(Checkout_resource (Some alice) 1, clock_from 0),
              (Reserve_resource (Some bob) 1, clock_from 1)] (library AVAILABLE [] []))
   \<and> at_most_one_active (library CHECKED_OUT [loan ACTIVE] [])
   \<and> at_most_one_active
        (snd (perform (Return_resource (Some alice) 1) (clock_from 0)
           (library CHECKED_OUT [loan ACTIVE] [])))
   \<and> length (active_checkouts 1
        (run [(Return_resource (Some alice) 1, clock_from 0)]
           (library CHECKED_OUT [loan ACTIVE] []))) \<le> 1"
proof -
  let ?ops = "[(Checkout_resource (Some alice) 1, clock_from 0),
               (Reserve_resource (Some bob) 1, clock_from 1)]"
  let ?ret = "[(Return_resource (Some alice) 1, clock_from 0)]"
  let ?s = "library CHECKED_OUT [loan ACTIVE] []"
  have h1: "checkouts (library AVAILABLE [] []) = []"
    by (simp add: library_def)
  have h2: "at_most_one_active ?s"
    by (simp add: at_most_one_active_def active_checkouts_def library_def loan_def)
  have c1: "at_most_one_active (run ?ops (library AVAILABLE [] []))"
    using h1 one_active_checkout_per_resource
      [of "library AVAILABLE [] []" ?ops ?s "Return_resource (Some alice) 1" "clock_from 0"]
    by blast
  have c2: "at_most_one_active
        (snd (perform (Return_resource (Some alice) 1) (clock_from 0) ?s))
      \<and> length (active_checkouts 1 (run ?ret ?s)) \<le> 1"
    using h2 one_active_checkout_per_resource
      [of "library AVAILABLE [] []" ?ret ?s "Return_resource (Some alice) 1" "clock_from 0"]
    by blast
  show ?thesis
    using h1 h2 c1 c2 by blast
qed

text \<open>
  \<^bold>\<open>C6\<close> (only patrons may reserve). The claim: a request of an authenticated user who is
  not a patron is rejected and creates no reservation. \<open>reserve_resource\<close> is decorated
  with \<open>login_required\<close> only and never calls \<open>is_patron\<close>, the guard its sibling
  \<open>checkout_resource\<close> starts with. Evaluated for the staff user bob on the checked-out
  resource 1: the request succeeds, bob holds a \<open>PENDING\<close> reservation and the resource is
  \<open>RESERVED\<close>.
\<close>

theorem staff_user_reserves:
  "\<not> is_patron bob
   \<and> succeeded (fst (reserve_resource (Some bob) 1 (clock_from 0)
        (library CHECKED_OUT [loan ACTIVE] [])))
   \<and> reservations (snd (reserve_resource (Some bob) 1 (clock_from 0)
        (library CHECKED_OUT [loan ACTIVE] []))) = [hold 1 (user_id bob)]
   \<and> resources (snd (reserve_resource (Some bob) 1 (clock_from 0)
        (library CHECKED_OUT [loan ACTIVE] []))) = [dune RESERVED]"
  by (simp add: reserve_defs example_defs lookup_defs)

text \<open>
  \<^bold>\<open>C7\<close> (reserving an available resource). For a user below the cap and a resource whose
  status is \<open>AVAILABLE\<close>, \<open>reserve_resource\<close> answers with the informational message and a
  redirect to the resource's page, and the database is unchanged: no reservation row, the
  same resource status.
\<close>

theorem reserve_available_is_advisory:
  assumes "get_resource pk s = Some r" and "resource_status r = AVAILABLE"
    and "pending_count (user_id u) s < MAX_ACTIVE_RESERVATIONS_PER_PATRON"
  shows "reserve_resource (Some u) pk clk s =
           (Inr (Redirect (To_resource_detail pk) [(MSG_INFO, Resource_is_available)]), s)"
  using assms by (simp add: reserve_resource_def Let_def)

theorem reserve_available_is_advisory_witness:
  "get_resource 1 (library AVAILABLE [] []) = Some (dune AVAILABLE)
   \<and> resource_status (dune AVAILABLE) = AVAILABLE
   \<and> pending_count (user_id alice) (library AVAILABLE [] [])
        < MAX_ACTIVE_RESERVATIONS_PER_PATRON
   \<and> reserve_resource (Some alice) 1 (clock_from 0) (library AVAILABLE [] []) =
        (Inr (Redirect (To_resource_detail 1) [(MSG_INFO, Resource_is_available)]),
         library AVAILABLE [] [])"
proof -
  have h1: "get_resource 1 (library AVAILABLE [] []) = Some (dune AVAILABLE)"
    by (simp add: get_resource_def library_def dune_def)
  have h2: "resource_status (dune AVAILABLE) = AVAILABLE"
    by (simp add: dune_def)
  have h3: "pending_count (user_id alice) (library AVAILABLE [] [])
        < MAX_ACTIVE_RESERVATIONS_PER_PATRON"
    by (simp add: pending_count_def library_def MAX_ACTIVE_RESERVATIONS_PER_PATRON_def)
  show ?thesis
    using h1 h2 h3 reserve_available_is_advisory [OF h1 h2 h3, of "clock_from 0"] by blast
qed

text \<open>
  \<^bold>\<open>C8\<close> (promotion to staff). When an admin promotes an existing user \<open>u\<close>, whatever the
  user's role and activity were, the request succeeds, the user's row is \<open>u\<close> with role
  \<open>STAFF\<close> and nothing else in the database changes. Promoting the same user again, by
  whoever asks, leaves that database as it is: twice is the same as once.
\<close>

theorem promote_to_staff_idempotent:
  assumes "is_admin_user a" and "get_user uid s = Some u"
  shows "succeeded (fst (admin_promote_to_staff (Some a) uid s))
       \<and> snd (admin_promote_to_staff (Some a) uid s) =
           s\<lparr>users := map (\<lambda>x. if user_id x = uid then u\<lparr>role := STAFF\<rparr> else x) (users s)\<rparr>
       \<and> get_user uid (snd (admin_promote_to_staff (Some a) uid s)) = Some (u\<lparr>role := STAFF\<rparr>)
       \<and> snd (admin_promote_to_staff b uid (snd (admin_promote_to_staff (Some a) uid s))) =
           snd (admin_promote_to_staff (Some a) uid s)"
proof -
  have id: "user_id (u\<lparr>role := STAFF\<rparr>) = uid"
    using assms(2) by (simp add: get_user_SomeD)
  note promoted = admin_promote_to_staff_done[OF assms]
  have "succeeded (fst (admin_promote_to_staff (Some a) uid s))"
    by (simp add: promoted)
  moreover have "snd (admin_promote_to_staff (Some a) uid s) =
           s\<lparr>users := map (\<lambda>x. if user_id x = uid then u\<lparr>role := STAFF\<rparr> else x) (users s)\<rparr>"
    using id by (simp add: promoted save_user_def)
  moreover have "get_user uid (snd (admin_promote_to_staff (Some a) uid s)) =
      Some (u\<lparr>role := STAFF\<rparr>)"
    using assms(2) id by (simp add: promoted get_user_save_user)
  moreover have "snd (admin_promote_to_staff b uid (snd (admin_promote_to_staff (Some a) uid s)))
      = snd (admin_promote_to_staff (Some a) uid s)"
    using assms(2) by (simp add: promoted admin_promote_to_staff_again)
  ultimately show ?thesis by blast
qed

theorem promote_to_staff_idempotent_witness:
  "is_admin_user carol
   \<and> get_user 1 (library AVAILABLE [] []) = Some alice
   \<and> users (snd (admin_promote_to_staff (Some carol) 1 (library AVAILABLE [] [])))
       = [alice\<lparr>role := STAFF\<rparr>, bob, carol]
   \<and> snd (admin_promote_to_staff (Some carol) 1
          (snd (admin_promote_to_staff (Some carol) 1 (library AVAILABLE [] []))))
       = snd (admin_promote_to_staff (Some carol) 1 (library AVAILABLE [] []))"
proof -
  have h1: "is_admin_user carol"
    by (simp add: is_admin_user_def carol_def)
  have h2: "get_user 1 (library AVAILABLE [] []) = Some alice"
    by (simp add: get_user_def library_def alice_def)
  note inst = promote_to_staff_idempotent [OF h1 h2, of "Some carol"]
  have "users (snd (admin_promote_to_staff (Some carol) 1 (library AVAILABLE [] [])))
       = [alice\<lparr>role := STAFF\<rparr>, bob, carol]"
    using inst by (simp add: library_def alice_def bob_def carol_def)
  then show ?thesis
    using h1 h2 inst by blast
qed

text \<open>
  \<^bold>\<open>C9\<close> (reserving a lost resource). For a patron below the cap and a resource whose
  status is \<open>LOST\<close>, \<open>reserve_resource\<close> succeeds: it appends one \<open>PENDING\<close> reservation of
  the patron for the resource, and the resource's row now has status \<open>RESERVED\<close>.
\<close>

theorem reserve_lost_resource:
  assumes "is_patron u" and "get_resource pk s = Some r" and "resource_status r = LOST"
    and "pending_count (user_id u) s < MAX_ACTIVE_RESERVATIONS_PER_PATRON"
  shows "succeeded (fst (reserve_resource (Some u) pk clk s))
       \<and> reservations (snd (reserve_resource (Some u) pk clk s)) = reservations s @
           [\<lparr>rsv_id = next_id (map rsv_id (reservations s)), rsv_patron = user_id u,
             rsv_resource = pk, rsv_created_at = now clk, rsv_status = PENDING,
             hold_until = None\<rparr>]
       \<and> get_resource pk (snd (reserve_resource (Some u) pk clk s)) =
           Some (r\<lparr>resource_status := RESERVED\<rparr>)"
proof -
  have "resource_status r \<noteq> AVAILABLE"
    using assms(3) by simp
  then show ?thesis
    using reserve_resource_placed_tables(1,2,3)[OF assms(2) _ assms(4)] by simp
qed

theorem reserve_lost_resource_witness:
  "is_patron alice
   \<and> get_resource 1 (library LOST [] []) = Some (dune LOST)
   \<and> resource_status (dune LOST) = LOST
   \<and> pending_count (user_id alice) (library LOST [] []) < MAX_ACTIVE_RESERVATIONS_PER_PATRON
   \<and> succeeded (fst (reserve_resource (Some alice) 1 (clock_from 0) (library LOST [] [])))
   \<and> reservations (snd (reserve_resource (Some alice) 1 (clock_from 0) (library LOST [] [])))
       = [hold 1 (user_id alice)]
   \<and> get_resource 1 (snd (reserve_resource (Some alice) 1 (clock_from 0)
        (library LOST [] []))) = Some (dune RESERVED)"
proof -
  have h1: "is_patron alice"
    by (simp add: is_patron_def alice_def)
  have h2: "get_resource 1 (library LOST [] []) = Some (dune LOST)"
    by (simp add: get_resource_def library_def dune_def)
  have h3: "resource_status (dune LOST) = LOST"
    by (simp add: dune_def)
  have h4: "pending_count (user_id alice) (library LOST [] [])
        < MAX_ACTIVE_RESERVATIONS_PER_PATRON"
    by (simp add: pending_count_def library_def MAX_ACTIVE_RESERVATIONS_PER_PATRON_def)
  have "reservations (library LOST [] []) = []" "next_id [] = 1"
    "now (clock_from 0) = 0" "dune LOST\<lparr>resource_status := RESERVED\<rparr> = dune RESERVED"
    by (simp_all add: library_def next_id_def now_def clock_from_def dune_def)
  then show ?thesis
    using h1 h2 h3 h4 reserve_lost_resource [OF h1 h2 h3 h4, of "clock_from 0"]
    by (simp add: hold_def)
qed

text \<open>
  \<^bold>\<open>C10\<close> (what a return does to the resource and to reservations). A return request
  (self-service or by staff) that reaches the \<open>ACTIVE\<close> checkout \<open>c\<close>, not yet returned,
  whose resource row is \<open>r\<close>: whatever the status of \<open>r\<close> was (\<open>RESERVED\<close> included), the
  resource's row afterwards is \<open>r\<close> with status \<open>AVAILABLE\<close>, no other resource row
  changes, and the reservation table is exactly what it was, \<open>PENDING\<close> reservations of
  that resource included.
\<close>

theorem return_makes_resource_available:
  assumes "return_request op s = Some c" and "co_status c = ACTIVE"
    and "unreturned (co_id c) s" and "get_resource (co_resource c) s = Some r"
  shows "get_resource (co_resource c) (snd (perform op clk s)) =
           Some (r\<lparr>resource_status := AVAILABLE\<rparr>)
       \<and> resources (snd (perform op clk s)) =
           map (\<lambda>x. if resource_id x = co_resource c then r\<lparr>resource_status := AVAILABLE\<rparr>
                     else x) (resources s)
       \<and> reservations (snd (perform op clk s)) = reservations s"
proof -
  have rows: "resources (snd (perform op clk s)) =
           map (\<lambda>x. if resource_id x = co_resource c then r\<lparr>resource_status := AVAILABLE\<rparr>
                     else x) (resources s)"
    using assms by (simp add: return_request_tables(1) resources_record_return)
  have "resource_id (r\<lparr>resource_status := AVAILABLE\<rparr>) = co_resource c"
    using assms(4) by (simp add: get_resource_SomeD)
  then have "find (\<lambda>x. resource_id x = co_resource c)
          (map (\<lambda>x. if resource_id x = co_resource c then r\<lparr>resource_status := AVAILABLE\<rparr>
                     else x) (resources s)) = Some (r\<lparr>resource_status := AVAILABLE\<rparr>)"
    using assms(4) by (intro find_replaced[where y = r]) (simp_all add: get_resource_def)
  then have "get_resource (co_resource c) (snd (perform op clk s)) =
           Some (r\<lparr>resource_status := AVAILABLE\<rparr>)"
    by (simp add: get_resource_def rows)
  then show ?thesis
    using rows assms by (simp add: return_request_tables(2))
qed

theorem return_makes_resource_available_witness:
  "return_request (Staff_process_return (Some bob) 1)
       (library RESERVED [loan ACTIVE] [hold 1 (user_id carol)]) = Some (loan ACTIVE)
   \<and> co_status (loan ACTIVE) = ACTIVE
   \<and> unreturned (co_id (loan ACTIVE)) (library RESERVED [loan ACTIVE] [hold 1 (user_id carol)])
   \<and> get_resource (co_resource (loan ACTIVE))
        (library RESERVED [loan ACTIVE] [hold 1 (user_id carol)]) = Some (dune RESERVED)
   \<and> succeeded (fst (perform (Staff_process_return (Some bob) 1) (clock_from 0)
        (library RESERVED [loan ACTIVE] [hold 1 (user_id carol)])))
   \<and> resources (snd (perform (Staff_process_return (Some bob) 1) (clock_from 0)
        (library RESERVED [loan ACTIVE] [hold 1 (user_id carol)]))) = [dune AVAILABLE]
   \<and> reservations (snd (perform (Staff_process_return (Some bob) 1) (clock_from 0)
        (library RESERVED [loan ACTIVE] [hold 1 (user_id carol)]))) = [hold 1 (user_id carol)]"
proof -
  let ?op = "Staff_process_return (Some bob) 1"
  let ?s = "library RESERVED [loan ACTIVE] [hold 1 (user_id carol)]"
  have h1: "return_request ?op ?s = Some (loan ACTIVE)"
    by (simp add: example_defs lookup_defs)
  have h2: "co_status (loan ACTIVE) = ACTIVE"
    by (simp add: example_defs)
  have h3: "unreturned (co_id (loan ACTIVE)) ?s"
    by (simp add: example_defs unreturned_def)
  have h4: "get_resource (co_resource (loan ACTIVE)) ?s = Some (dune RESERVED)"
    by (simp add: example_defs lookup_defs)
  have h5: "succeeded (fst (perform ?op (clock_from 0) ?s))"
    by (simp add: example_defs lookup_defs return_defs usec_per_day_def)
  note inst = return_makes_resource_available [OF h1 h2 h3 h4, of "clock_from 0"]
  have c1: "resources (snd (perform ?op (clock_from 0) ?s)) = [dune AVAILABLE]"
    using inst by (simp add: example_defs)
  have c2: "reservations (snd (perform ?op (clock_from 0) ?s)) = [hold 1 (user_id carol)]"
    using inst by (simp add: library_def)
  show ?thesis
    using h1 h2 h3 h4 h5 c1 c2 by blast
qed

end
